theory Spec2Isabelle
  imports Main
begin

section \<open>Values, identities and errors\<close>

text \<open>
  The key-value namespace is read with \<^verbatim>\<open>kv.get(key, 'json')\<close> and written with
  \<^verbatim>\<open>kv.put(key, JSON.stringify(data))\<close>, so what a load returns is a JSON value;
  \<^verbatim>\<open>null\<close> stands for an absent key. \<open>truthy\<close> is the test that
  \<^verbatim>\<open>if (currentTokenData)\<close> performs on such a value.
\<close>

datatype json =
    JNull
  | JBool bool
  | JNum int
  | JStr string
  | JArr "json list"
  | JObj "(string \<times> json) list"

fun truthy :: "json \<Rightarrow> bool" where
  "truthy JNull = False"
| "truthy (JBool b) = b"
| "truthy (JNum n) = (n \<noteq> 0)"
| "truthy (JStr s) = (s \<noteq> [])"
| "truthy (JArr _) = True"
| "truthy (JObj _) = True"

text \<open>
  An optional string field (\<^verbatim>\<open>schwabUserId?: string\<close>). The source tests such fields
  by truthiness (\<^verbatim>\<open>if (ids.schwabUserId)\<close>): \<^verbatim>\<open>undefined\<close> and the empty string
  both count as absent.
\<close>

definition present :: "string option \<Rightarrow> bool" where
  "present x = (case x of None \<Rightarrow> False | Some s \<Rightarrow> s \<noteq> [])"

definition the_id :: "string option \<Rightarrow> string" where
  "the_id x = (case x of None \<Rightarrow> [] | Some s \<Rightarrow> s)"

text \<open>
  \<^verbatim>\<open>TokenIdentifiers\<close>; \<^verbatim>\<open>MyMCPProps\<close> of \<^verbatim>\<open>index.ts\<close> has the same two optional
  fields and is modelled by the same record.
\<close>

record TokenIdentifiers =
  schwabUserId :: "string option"
  clientId :: "string option"

datatype auth_error =
    MissingClientId
  | MissingState
  | InvalidState
  | MissingParameters
  | TokenExchange
  | NoUserId
  | AuthCallback
  | AuthRequestErr
  | AuthApproval
  | ApiResponse

text \<open>
  What a \<^verbatim>\<open>throw\<close> can carry: a plain \<^verbatim>\<open>Error\<close> with its message, the two error
  classes of the brokerage SDK that the callback's handler tells apart (with their code),
  and the handlers' own \<^verbatim>\<open>AuthErrors\<close>.
\<close>

datatype error =
    JsError string
  | SchwabAuthError string
  | SchwabApiError string
  | AuthError auth_error

definition IdentityMissing :: error where
  "IdentityMissing = JsError ''No identifier provided for token key''"

section \<open>Key derivation (\<^verbatim>\<open>generateKey\<close> of \<^verbatim>\<open>kvTokenStore.ts\<close>)\<close>

text \<open>
  \<^verbatim>\<open>TOKEN_KEY_PREFIX\<close> comes from \<^verbatim>\<open>./constants\<close> and is a parameter here.
\<close>

definition generateKey :: "string \<Rightarrow> TokenIdentifiers \<Rightarrow> error + string" where
  "generateKey pfx ids =
     (if present (schwabUserId ids) then Inr (pfx @ the_id (schwabUserId ids))
      else if present (clientId ids) then Inr (pfx @ the_id (clientId ids))
      else Inl IdentityMissing)"

section \<open>Programs with state and exceptions\<close>

text \<open>
  A program takes the state and returns either the thrown error or its result, with the
  state it leaves behind. \<open>try_catch\<close> is \<^verbatim>\<open>try { ... } catch (e) { ... }\<close>: the
  handler runs in the state the failing body left.
\<close>

type_synonym ('s, 'a) prog = "'s \<Rightarrow> (error + 'a) \<times> 's"

definition ret :: "'a \<Rightarrow> ('s, 'a) prog" where
  "ret x = (\<lambda>s. (Inr x, s))"

definition throw :: "error \<Rightarrow> ('s, 'a) prog" where
  "throw e = (\<lambda>s. (Inl e, s))"

definition lift :: "error + 'a \<Rightarrow> ('s, 'a) prog" where
  "lift r = (\<lambda>s. (r, s))"

definition andThen :: "('s, 'a) prog \<Rightarrow> ('a \<Rightarrow> ('s, 'b) prog) \<Rightarrow> ('s, 'b) prog" where
  "andThen m f = (\<lambda>s. case m s of (Inl e, s') \<Rightarrow> (Inl e, s') | (Inr x, s') \<Rightarrow> f x s')"

definition try_catch :: "('s, 'a) prog \<Rightarrow> (error \<Rightarrow> ('s, 'a) prog) \<Rightarrow> ('s, 'a) prog" where
  "try_catch m h = (\<lambda>s. case m s of (Inl e, s') \<Rightarrow> h e s' | (Inr x, s') \<Rightarrow> (Inr x, s'))"

section \<open>The world outside the code\<close>

datatype level = Debug | Info | Warn | Err

text \<open>The calls the code makes to its collaborators, in the order it makes them.\<close>

datatype call =
    KvGet string
  | KvPut string json
  | SdkMigrate TokenIdentifiers TokenIdentifiers
  | GetConfig
  | ParseRedirectApproval
  | RedirectToSchwab
  | DecodeAndVerifyState
  | InitializeSchwabAuthClient
  | ExchangeCode string string
  | CreateApiClient
  | GetUserPreference
  | CompleteAuthorization string
  | ServerTool
  | RegisterTools
  | TmGetAccessToken
  | TmInitialize
  | TmInitializeCalled
  | TmInitializeSettled

text \<open>
  \<open>kv\<close> is the content of the \<^verbatim>\<open>OAUTH_KV\<close> namespace (the expiry of an entry is real
  time and is not modelled), \<open>calls\<close> the history of collaborator calls, \<open>logs\<close> what
  was written to the logger at level info and above (the \<^verbatim>\<open>debug\<close> tracing of
  \<^verbatim>\<open>init\<close> is left out).
\<close>

record world =
  kv :: "string \<rightharpoonup> json"
  calls :: "call list"
  logs :: "(level \<times> string) list"

record config =
  SCHWAB_CLIENT_ID :: string
  SCHWAB_REDIRECT_URI :: string

text \<open>
  The \<^verbatim>\<open>AuthRequest\<close> that travels through the approval form and the provider's
  \<^verbatim>\<open>state\<close> parameter. It is decoded from untrusted text, so every field may be absent.
\<close>

record AuthRequest =
  ar_clientId :: "string option"
  ar_redirectUri :: "string option"
  ar_scope :: "string list option"

datatype response = JsonError auth_error | Redirect string

text \<open>
  \<^verbatim>\<open>userPreferences?.streamerInfo?.[0]?.schwabClientCorrelId\<close>: the preferences may be
  absent, so may the list, its first entry and the entry's id.
\<close>

type_synonym userPreference = "string option list option"

definition correlId :: "userPreference option \<Rightarrow> string option" where
  "correlId up = (case up of Some (Some (si # _)) \<Rightarrow> si | _ \<Rightarrow> None)"

text \<open>
  The collaborators are parameters: code of the SDK, of the OAuth provider and of modules
  of this repository that are not at hand. Each sees the time (the number of calls made so
  far), so that the same call may fail once and succeed later. Those that can reach the
  key-value namespace (the SDK's store, the token manager, which loads and saves through
  the closures it was given) take its content and return the new one. All of them may
  throw but one: the \<^verbatim>\<open>migrate\<close> of the SDK's store answers false on every failure of
  its own and never rejects.
\<close>

record ext =
  TOKEN_KEY_PREFIX :: string
  kv_fault :: "nat \<Rightarrow> error option"
  sdk_migrate :: "TokenIdentifiers \<Rightarrow> TokenIdentifiers \<Rightarrow> nat \<Rightarrow> (string \<rightharpoonup> json)
                    \<Rightarrow> bool \<times> (string \<rightharpoonup> json)"
  getConfig :: "nat \<Rightarrow> error + config"
  parseRedirectApproval :: "string \<Rightarrow> nat \<Rightarrow> error + AuthRequest option"
  redirectToSchwab :: "AuthRequest \<Rightarrow> nat \<Rightarrow> error + response"
  decodeAndVerifyState :: "string \<Rightarrow> nat \<Rightarrow> error + AuthRequest option"
  extractClientIdFromState :: "AuthRequest \<Rightarrow> error + string"
  initializeSchwabAuthClient :: "nat \<Rightarrow> error + nat"
  exchangeCode :: "nat \<Rightarrow> string \<Rightarrow> string \<Rightarrow> nat \<Rightarrow> (string \<rightharpoonup> json)
                    \<Rightarrow> (error + unit) \<times> (string \<rightharpoonup> json)"
  createApiClient :: "nat \<Rightarrow> nat \<Rightarrow> error + nat"
  getUserPreference :: "nat \<Rightarrow> nat \<Rightarrow> error + userPreference option"
  completeAuthorization :: "AuthRequest \<Rightarrow> string \<Rightarrow> TokenIdentifiers \<Rightarrow> nat \<Rightarrow> error + string"
  mapSchwabError :: "string \<Rightarrow> auth_error"
  registerTools :: "nat \<Rightarrow> nat \<Rightarrow> error + unit"
  tm_getAccessToken :: "nat \<Rightarrow> nat \<Rightarrow> (string \<rightharpoonup> json)
                    \<Rightarrow> (error + string option) \<times> (string \<rightharpoonup> json)"
  tm_initialize :: "nat \<Rightarrow> nat \<Rightarrow> (string \<rightharpoonup> json) \<Rightarrow> (error + bool) \<times> (string \<rightharpoonup> json)"
  settles :: "nat \<Rightarrow> bool"

definition log :: "level \<Rightarrow> string \<Rightarrow> ('w world_scheme, unit) prog" where
  "log l m = (\<lambda>w. (Inr (), w\<lparr>logs := logs w @ [(l, m)]\<rparr>))"

definition call_pure :: "call \<Rightarrow> (nat \<Rightarrow> error + 'a) \<Rightarrow> ('w world_scheme, 'a) prog" where
  "call_pure c f = (\<lambda>w. (f (length (calls w)), w\<lparr>calls := calls w @ [c]\<rparr>))"

definition call_kv ::
  "call \<Rightarrow> (nat \<Rightarrow> (string \<rightharpoonup> json) \<Rightarrow> (error + 'a) \<times> (string \<rightharpoonup> json))
     \<Rightarrow> ('w world_scheme, 'a) prog" where
  "call_kv c f =
     (\<lambda>w. case f (length (calls w)) (kv w) of
             (r, k') \<Rightarrow> (r, w\<lparr>kv := k', calls := calls w @ [c]\<rparr>))"

text \<open>\<^verbatim>\<open>kv.get(key, 'json')\<close> and \<^verbatim>\<open>kv.put(key, text, ...)\<close>; either may throw.\<close>

definition kv_get :: "ext \<Rightarrow> string \<Rightarrow> ('w world_scheme, json) prog" where
  "kv_get E key =
     (\<lambda>w. ((case kv_fault E (length (calls w)) of
               Some e \<Rightarrow> Inl e
             | None \<Rightarrow> Inr (case kv w key of None \<Rightarrow> JNull | Some v \<Rightarrow> v)),
            w\<lparr>calls := calls w @ [KvGet key]\<rparr>))"

definition kv_put :: "ext \<Rightarrow> string \<Rightarrow> json \<Rightarrow> ('w world_scheme, unit) prog" where
  "kv_put E key v =
     (\<lambda>w. case kv_fault E (length (calls w)) of
             Some e \<Rightarrow> (Inl e, w\<lparr>calls := calls w @ [KvPut key v]\<rparr>)
           | None \<Rightarrow> (Inr (), w\<lparr>kv := (kv w)(key \<mapsto> v), calls := calls w @ [KvPut key v]\<rparr>))"

section \<open>The token store (\<^verbatim>\<open>makeKvTokenStore\<close>)\<close>

definition kvToken_load :: "ext \<Rightarrow> TokenIdentifiers \<Rightarrow> ('w world_scheme, json) prog" where
  "kvToken_load E ids =
     andThen (lift (generateKey (TOKEN_KEY_PREFIX E) ids)) (\<lambda>key. kv_get E key)"

definition kvToken_save :: "ext \<Rightarrow> TokenIdentifiers \<Rightarrow> json \<Rightarrow> ('w world_scheme, unit) prog" where
  "kvToken_save E ids data =
     andThen (lift (generateKey (TOKEN_KEY_PREFIX E) ids)) (\<lambda>key. kv_put E key data)"

definition kvToken_kvKey :: "ext \<Rightarrow> TokenIdentifiers \<Rightarrow> ('w world_scheme, string) prog" where
  "kvToken_kvKey E ids = lift (generateKey (TOKEN_KEY_PREFIX E) ids)"

definition migration_warning :: string where
  "migration_warning = ''Token migration was not needed or failed''"

text \<open>
  The SDK store is constructed with \<^verbatim>\<open>keyPrefix: TOKEN_KEY_PREFIX\<close>. Its
  \<^verbatim>\<open>generateKey\<close> derives the keys under which \<^verbatim>\<open>load\<close> and \<^verbatim>\<open>save\<close> above
  must find the records it migrates: it is the derivation of lines 33 to 37 with that
  prefix, and like it throws for an identity without identifier.
\<close>

definition sdkStore_generateKey :: "ext \<Rightarrow> TokenIdentifiers \<Rightarrow> error + string" where
  "sdkStore_generateKey E ids = generateKey (TOKEN_KEY_PREFIX E) ids"

text \<open>
  \<^verbatim>\<open>migrateIfNeeded\<close> awaits the SDK store's \<^verbatim>\<open>migrate\<close>; when the answer is false
  it builds the warning's payload with the SDK store's \<^verbatim>\<open>generateKey\<close>, for the source
  identity first, outside any \<^verbatim>\<open>try\<close>.
\<close>

definition migrateIfNeeded ::
  "ext \<Rightarrow> TokenIdentifiers \<Rightarrow> TokenIdentifiers \<Rightarrow> ('w world_scheme, unit) prog" where
  "migrateIfNeeded E fromIds toIds =
     andThen (call_kv (SdkMigrate fromIds toIds)
                (\<lambda>t k. case sdk_migrate E fromIds toIds t k of (answer, k') \<Rightarrow> (Inr answer, k')))
       (\<lambda>success.
          if \<not> success then
            andThen (lift (sdkStore_generateKey E fromIds)) (\<lambda>fromKey.
            andThen (lift (sdkStore_generateKey E toIds)) (\<lambda>toKey.
              log Warn migration_warning))
          else ret ())"

section \<open>The authorization endpoints (\<^verbatim>\<open>app.post('/authorize')\<close>, \<^verbatim>\<open>app.get('/callback')\<close>)\<close>

text \<open>
  The approval submission. \<^verbatim>\<open>parseRedirectApproval\<close> yields the submitted state; the
  model keeps its \<^verbatim>\<open>oauthReqInfo\<close> field, which may be missing. The submitted form is
  passed as raw text. A response is the error it names or the redirect target; status
  codes and message texts are made by \<^verbatim>\<open>formatAuthError\<close> and
  \<^verbatim>\<open>createJsonErrorResponse\<close> from the error alone, and where the source logs such a
  message the model logs the name of the error.
\<close>

definition approve :: "ext \<Rightarrow> string \<Rightarrow> ('w world_scheme, response) prog" where
  "approve E raw =
     try_catch
       (andThen (call_pure GetConfig (getConfig E)) (\<lambda>cfg.
        andThen (call_pure ParseRedirectApproval (parseRedirectApproval E raw)) (\<lambda>oauthReqInfo.
          case oauthReqInfo of
            None \<Rightarrow>
              andThen (log Err ''MissingState'') (\<lambda>_. ret (JsonError MissingState))
          | Some authRequestForSchwab \<Rightarrow>
              if \<not> present (ar_clientId authRequestForSchwab)
                 \<or> ar_scope authRequestForSchwab = None
              then andThen (log Err ''InvalidState'') (\<lambda>_. ret (JsonError InvalidState))
              else call_pure RedirectToSchwab (redirectToSchwab E authRequestForSchwab))))
       (\<lambda>error. andThen (log Err ''AuthApproval'') (\<lambda>_. ret (JsonError AuthApproval)))"

record callback_request =
  q_state :: "string option"
  q_code :: "string option"

text \<open>
  Lines 299 to 329 of the callback: read the record under the client id's key; only if
  it is truthy, write it under the user id's key and then under the client id's key.
  Whatever is thrown in between is logged as a warning and dropped.
\<close>

definition persistDualKey :: "ext \<Rightarrow> string \<Rightarrow> string \<Rightarrow> ('w world_scheme, unit) prog" where
  "persistDualKey E clientIdFromState userIdFromSchwab =
     try_catch
       (andThen (kvToken_load E \<lparr>schwabUserId = None, clientId = Some clientIdFromState\<rparr>)
          (\<lambda>currentTokenData.
             if truthy currentTokenData then
               andThen (kvToken_save E \<lparr>schwabUserId = Some userIdFromSchwab, clientId = None\<rparr>
                          currentTokenData) (\<lambda>_.
               andThen (kvToken_save E \<lparr>schwabUserId = None, clientId = Some clientIdFromState\<rparr>
                          currentTokenData) (\<lambda>_.
               andThen (kvToken_kvKey E \<lparr>schwabUserId = None, clientId = Some clientIdFromState\<rparr>)
                 (\<lambda>clientIdKey.
               andThen (kvToken_kvKey E \<lparr>schwabUserId = Some userIdFromSchwab, clientId = None\<rparr>)
                 (\<lambda>schwabUserIdKey.
               log Info ''Token saved under both keys''))))
             else ret ()))
       (\<lambda>migrationError. log Warn ''Token save failed, continuing with authorization'')"

text \<open>Lines 331 to 344: hand over to the provider and redirect to where it says.\<close>

definition completeFlow ::
  "ext \<Rightarrow> AuthRequest \<Rightarrow> string \<Rightarrow> string \<Rightarrow> ('w world_scheme, response) prog" where
  "completeFlow E decoded clientIdFromState userIdFromSchwab =
     andThen (call_pure (CompleteAuthorization userIdFromSchwab)
                (completeAuthorization E decoded userIdFromSchwab
                   \<lparr>schwabUserId = Some userIdFromSchwab, clientId = Some clientIdFromState\<rparr>))
       (\<lambda>redirectTo. ret (Redirect redirectTo))"

text \<open>The final \<^verbatim>\<open>catch\<close> of the callback: which error the response names.\<close>

definition callback_error :: "ext \<Rightarrow> error \<Rightarrow> auth_error" where
  "callback_error E error =
     (case error of
        SchwabAuthError code \<Rightarrow> mapSchwabError E code
      | SchwabApiError code \<Rightarrow> ApiResponse
      | _ \<Rightarrow> AuthCallback)"

definition callback :: "ext \<Rightarrow> callback_request \<Rightarrow> ('w world_scheme, response) prog" where
  "callback E req =
     try_catch
       (andThen (call_pure GetConfig (getConfig E)) (\<lambda>cfg.
          if \<not> present (q_state req) \<or> \<not> present (q_code req) then
            andThen (log Err ''MissingParameters'') (\<lambda>_. ret (JsonError MissingParameters))
          else
            andThen (call_pure DecodeAndVerifyState
                       (decodeAndVerifyState E (the_id (q_state req)))) (\<lambda>decodedState.
            case decodedState of
              None \<Rightarrow> andThen (log Err ''InvalidState'') (\<lambda>_. ret (JsonError InvalidState))
            | Some decoded \<Rightarrow>
                andThen (lift (extractClientIdFromState E decoded)) (\<lambda>clientIdFromState.
                if \<not> present (ar_clientId decoded) \<or> \<not> present (ar_redirectUri decoded)
                   \<or> ar_scope decoded = None
                then andThen (log Err ''InvalidState'') (\<lambda>_. ret (JsonError InvalidState))
                else
                  andThen (call_pure InitializeSchwabAuthClient (initializeSchwabAuthClient E))
                    (\<lambda>auth.
                  andThen (log Info ''Exchanging authorization code for tokens'') (\<lambda>_.
                  andThen (try_catch
                             (call_kv (ExchangeCode (the_id (q_code req)) (the_id (q_state req)))
                                (exchangeCode E auth (the_id (q_code req)) (the_id (q_state req))))
                             (\<lambda>exchangeError.
                                andThen (log Err ''Token exchange failed'')
                                  (\<lambda>_. throw (AuthError TokenExchange)))) (\<lambda>_.
                  andThen (log Info ''Token exchange successful'') (\<lambda>_.
                  andThen (log Info ''Creating Schwab API client'') (\<lambda>_.
                  andThen (try_catch
                             (call_pure CreateApiClient (createApiClient E auth))
                             (\<lambda>clientError.
                                andThen (log Err ''Failed to create API client'')
                                  (\<lambda>_. throw (AuthError AuthCallback)))) (\<lambda>client.
                  andThen (log Info ''Fetching user preferences to get Schwab user ID'') (\<lambda>_.
                  andThen (try_catch
                             (call_pure GetUserPreference (getUserPreference E client))
                             (\<lambda>preferencesError.
                                andThen (log Err ''Failed to fetch user preferences'')
                                  (\<lambda>_. throw (AuthError NoUserId)))) (\<lambda>userPreferences.
                  if \<not> present (correlId userPreferences) then
                    andThen (log Err ''NoUserId'') (\<lambda>_. ret (JsonError NoUserId))
                  else
                    andThen (persistDualKey E clientIdFromState
                               (the_id (correlId userPreferences))) (\<lambda>_.
                    completeFlow E decoded clientIdFromState
                      (the_id (correlId userPreferences)))))))))))))))
       (\<lambda>error.
          andThen (log Err ''Auth callback failed'')
            (\<lambda>_. ret (JsonError (callback_error E error))))"

section \<open>The session actor (\<^verbatim>\<open>MyMCP\<close> of \<^verbatim>\<open>index.ts\<close>)\<close>

text \<open>
  The actor's fields, on top of the world it runs in. The token manager and the client are
  handles. \<open>statusRegistered\<close> is the state of the actor's one \<^verbatim>\<open>McpServer\<close> (the field
  \<^verbatim>\<open>server\<close>, line 47) that matters here: whether the status tool is registered on it.
  \<open>unsettled\<close> counts the promises of \<^verbatim>\<open>tokenManager.initialize()\<close> that were started
  without \<^verbatim>\<open>await\<close> and have not settled yet.
\<close>

record session = world +
  props :: TokenIdentifiers
  tokenManager :: "nat option"
  client :: "nat option"
  validatedConfig :: "config option"
  statusRegistered :: bool
  unsettled :: nat

definition reading :: "('s \<Rightarrow> 'a) \<Rightarrow> ('s, 'a) prog" where
  "reading f = (\<lambda>s. (Inr (f s), s))"

definition modify :: "('s \<Rightarrow> 's) \<Rightarrow> ('s, unit) prog" where
  "modify f = (\<lambda>s. (Inr (), f s))"

text \<open>
  A promise that nobody awaits can only make progress while the actor is suspended in an
  \<^verbatim>\<open>await\<close> on a collaborator: there, if the scheduler says so, one unsettled
  \<^verbatim>\<open>initialize()\<close> runs to its end. Between two such points the actor's code runs alone.
\<close>

definition suspend :: "ext \<Rightarrow> session \<Rightarrow> session" where
  "suspend E s =
     (case tokenManager s of
        None \<Rightarrow> s
      | Some tm \<Rightarrow>
          if 0 < unsettled s \<and> settles E (length (calls s)) then
            (case tm_initialize E tm (length (calls s)) (kv s) of
               (r, k') \<Rightarrow> s\<lparr>kv := k', calls := calls s @ [TmInitializeSettled],
                             unsettled := unsettled s - 1\<rparr>)
          else s)"

definition await :: "ext \<Rightarrow> (session, 'a) prog \<Rightarrow> (session, 'a) prog" where
  "await E m = (\<lambda>s. case m s of (r, s') \<Rightarrow> (r, suspend E s'))"

definition getTokenIds :: "session \<Rightarrow> TokenIdentifiers" where
  "getTokenIds s = \<lparr>schwabUserId = schwabUserId (props s), clientId = clientId (props s)\<rparr>"

definition saveTokenForETM :: "ext \<Rightarrow> json \<Rightarrow> (session, unit) prog" where
  "saveTokenForETM E tokenSet =
     andThen (reading getTokenIds) (\<lambda>ids.
     andThen (kvToken_save E ids tokenSet) (\<lambda>_.
     andThen (reading getTokenIds) (\<lambda>ids'.
     andThen (kvToken_kvKey E ids') (\<lambda>_. ret ()))))"

definition loadTokenForETM :: "ext \<Rightarrow> (session, json) prog" where
  "loadTokenForETM E =
     andThen (reading getTokenIds) (\<lambda>tokenIds.
     andThen (kvToken_kvKey E tokenIds) (\<lambda>_.
     andThen (kvToken_load E tokenIds) (\<lambda>tokenData.
     andThen (kvToken_kvKey E tokenIds) (\<lambda>_. ret tokenData))))"

text \<open>
  \<^verbatim>\<open>init\<close>. Building the logger and the store object has no effect that matters here
  and is left out. The arguments of the development-only log line are evaluated before the
  call, so the key is derived there (line 101) whatever the environment. The call
  \<^verbatim>\<open>this.tokenManager.initialize()\<close> on line 166 has no \<^verbatim>\<open>await\<close>: it starts the
  initialization and leaves its promise unsettled.
\<close>

definition backfill :: "config \<Rightarrow> session \<Rightarrow> session" where
  "backfill cfg s =
     (if \<not> present (clientId (props s))
      then s\<lparr>props := (props s)\<lparr>clientId := Some (SCHWAB_CLIENT_ID cfg)\<rparr>\<rparr>
      else s)"

definition startInitialize :: "(session, unit) prog" where
  "startInitialize =
     (\<lambda>s. (Inr (), s\<lparr>calls := calls s @ [TmInitializeCalled], unsettled := unsettled s + 1\<rparr>))"

text \<open>
  Line 55, \<^verbatim>\<open>this.server.tool(TOOL_NAMES.STATUS, ...)\<close>: \<^verbatim>\<open>McpServer.tool\<close> registers
  the name and throws when the name is registered already.
\<close>

definition registerStatus :: "(session, unit) prog" where
  "registerStatus =
     (\<lambda>s. if statusRegistered s
          then (Inl (JsError ''Tool status is already registered''),
                s\<lparr>calls := calls s @ [ServerTool]\<rparr>)
          else (Inr (), s\<lparr>calls := calls s @ [ServerTool], statusRegistered := True\<rparr>))"

text \<open>Lines 68 to 219: what \<^verbatim>\<open>init\<close> does after the registration of the status tool.\<close>

definition initSteps :: "ext \<Rightarrow> (session, unit) prog" where
  "initSteps E =
       (andThen (call_pure GetConfig (getConfig E)) (\<lambda>cfg.
        andThen (modify (\<lambda>s. s\<lparr>validatedConfig := Some cfg\<rparr>)) (\<lambda>_.
        andThen (modify (backfill cfg)) (\<lambda>_.
        andThen (reading getTokenIds) (\<lambda>ids.
        andThen (kvToken_kvKey E ids) (\<lambda>expectedKey.
        andThen (reading tokenManager) (\<lambda>existing.
        andThen (case existing of
                   Some tm \<Rightarrow> ret tm
                 | None \<Rightarrow>
                     andThen (call_pure InitializeSchwabAuthClient (initializeSchwabAuthClient E))
                       (\<lambda>tm.
                     andThen (modify (\<lambda>s. s\<lparr>tokenManager := Some tm\<rparr>)) (\<lambda>_. ret tm)))
          (\<lambda>tm.
        andThen startInitialize (\<lambda>_.
        andThen (reading props) (\<lambda>p.
        andThen (if present (schwabUserId p) \<and> present (clientId p) then
                   await E (migrateIfNeeded E
                              \<lparr>schwabUserId = None, clientId = clientId p\<rparr>
                              \<lparr>schwabUserId = schwabUserId p, clientId = None\<rparr>)
                 else ret ()) (\<lambda>_.
        andThen (call_pure CreateApiClient (createApiClient E tm)) (\<lambda>c.
        andThen (modify (\<lambda>s. s\<lparr>client := Some c\<rparr>)) (\<lambda>_.
        call_pure RegisterTools (registerTools E c))))))))))))))"

definition init :: "ext \<Rightarrow> (session, unit) prog" where
  "init E =
     try_catch
       (andThen registerStatus (\<lambda>_. initSteps E))
       (\<lambda>error.
          andThen (log Err ''[MyMCP.init] FINAL CATCH: UNHANDLED EXCEPTION in init()'')
            (\<lambda>_. throw error))"

text \<open>
  \<^verbatim>\<open>onReconnect\<close>. A \<^verbatim>\<open>return true\<close> inside one of the inner \<^verbatim>\<open>try\<close> blocks is
  the result \<open>Some True\<close> of that block; \<open>None\<close> means the code falls through to what
  follows.
\<close>

definition probe :: "ext \<Rightarrow> nat \<Rightarrow> (session, bool option) prog" where
  "probe E tm =
     try_catch
       (andThen (log Info ''Attempting to fetch access token as recovery test'') (\<lambda>_.
        andThen (await E (call_kv TmGetAccessToken (tm_getAccessToken E tm))) (\<lambda>token.
          if present token then
            andThen (log Info ''Successfully retrieved access token during reconnection'')
              (\<lambda>_. ret (Some True))
          else ret None)))
       (\<lambda>tokenError.
          andThen (log Warn ''Failed to get access token during reconnection'')
            (\<lambda>_. ret None))"

definition reload :: "ext \<Rightarrow> nat \<Rightarrow> (session, bool option) prog" where
  "reload E tm =
     try_catch
       (andThen (log Info ''Attempting proactive reinitialization of token manager'') (\<lambda>_.
        andThen (await E (call_kv TmInitialize (tm_initialize E tm))) (\<lambda>initResult.
        andThen (log Info (if initResult then ''Token manager reinitialization succeeded''
                           else ''Token manager reinitialization failed'')) (\<lambda>_.
          if initResult then ret (Some True) else ret None))))
       (\<lambda>initError.
          andThen (log Warn ''Token manager reinitialization failed'') (\<lambda>_. ret None))"

definition onReconnect :: "ext \<Rightarrow> (session, bool) prog" where
  "onReconnect E =
     andThen (log Info ''Handling reconnection in MyMCP instance'') (\<lambda>_.
     try_catch
       (andThen (reading tokenManager) (\<lambda>existing.
          case existing of
            None \<Rightarrow>
              andThen (log Warn ''Token manager not initialized, attempting full initialization'')
                (\<lambda>_.
              andThen (init E) (\<lambda>_. ret True))
          | Some tm \<Rightarrow>
              andThen (log Info ''Attempting reconnection via token manager'') (\<lambda>_.
              andThen (probe E tm) (\<lambda>r1.
                case r1 of
                  Some b \<Rightarrow> ret b
                | None \<Rightarrow>
                    andThen (reload E tm) (\<lambda>r2.
                      case r2 of
                        Some b \<Rightarrow> ret b
                      | None \<Rightarrow>
                          andThen (log Info ''Token manager state during reconnection'') (\<lambda>_.
                          andThen (log Warn
                            ''Reconnection recovery attempts failed, performing full reinitialization'')
                            (\<lambda>_.
                          andThen (init E) (\<lambda>_. ret True))))))))
       (\<lambda>error.
          andThen (log Err ''Critical error during reconnection handling'') (\<lambda>_.
          try_catch
            (andThen (log Warn
               ''Attempting emergency reinitialization after reconnection failure'') (\<lambda>_.
             andThen (init E) (\<lambda>_. ret True)))
            (\<lambda>initError.
               andThen (log Err ''Emergency reinitialization also failed'')
                 (\<lambda>_. ret False)))))"

section \<open>Reading the recovery and the later life of a session\<close>

text \<open>The state after some more log lines, and the lines \<^verbatim>\<open>onReconnect\<close> writes on its way.\<close>

definition logged :: "(level \<times> string) list \<Rightarrow> session \<Rightarrow> session" where
  "logged ls s = s\<lparr>logs := logs s @ ls\<rparr>"

definition reconnect_preamble :: "(level \<times> string) list" where
  "reconnect_preamble =
     [(Info, ''Handling reconnection in MyMCP instance''),
      (Info, ''Attempting reconnection via token manager'')]"

definition reinit_preamble :: "(level \<times> string) list" where
  "reinit_preamble =
     [(Info, ''Token manager state during reconnection''),
      (Warn, ''Reconnection recovery attempts failed, performing full reinitialization'')]"

definition emergency_preamble :: "(level \<times> string) list" where
  "emergency_preamble =
     [(Err, ''Critical error during reconnection handling''),
      (Warn, ''Attempting emergency reinitialization after reconnection failure'')]"

text \<open>An identity from which a key can be derived.\<close>

definition ids_ok :: "TokenIdentifiers \<Rightarrow> bool" where
  "ids_ok p = (present (schwabUserId p) \<or> present (clientId p))"

text \<open>
  The states a session can be in after the state \<open>s\<close>: it may run \<^verbatim>\<open>init\<close> and
  \<^verbatim>\<open>onReconnect\<close> again, in any environment, and anything else may happen to it that
  leaves \<^verbatim>\<open>props\<close> alone (\<^verbatim>\<open>init\<close> holds the only assignment to \<^verbatim>\<open>props\<close>).
\<close>

inductive later :: "session \<Rightarrow> session \<Rightarrow> bool" for s :: session where
  later_now: "later s s"
| later_init: "later s t \<Longrightarrow> later s (snd (init E t))"
| later_reconnect: "later s t \<Longrightarrow> later s (snd (onReconnect E t))"
| later_outside: "later s t \<Longrightarrow> props t' = props t \<Longrightarrow> later s t'"

text \<open>
  The states an actor can be in: it is constructed without a token manager; it runs
  \<^verbatim>\<open>init\<close> and \<^verbatim>\<open>onReconnect\<close>, in any environment; and the world around it may
  change while its own fields stay as they are.
\<close>

inductive reachable :: "session \<Rightarrow> bool" where
  constructed: "tokenManager s = None \<Longrightarrow> reachable s"
| after_init: "reachable s \<Longrightarrow> reachable (snd (init E s))"
| after_reconnect: "reachable s \<Longrightarrow> reachable (snd (onReconnect E s))"
| after_outside:
    "reachable s \<Longrightarrow> props t = props s \<Longrightarrow> tokenManager t = tokenManager s \<Longrightarrow>
     client t = client s \<Longrightarrow> statusRegistered t = statusRegistered s \<Longrightarrow> reachable t"

text \<open>A program keeps a property of the state, however it ends.\<close>

definition preserves :: "('s \<Rightarrow> bool) \<Rightarrow> ('s, 'a) prog \<Rightarrow> bool" where
  "preserves P m = (\<forall>s. P s \<longrightarrow> P (snd (m s)))"

section \<open>Sample collaborators and states\<close>

text \<open>
  Concrete collaborators on which the model is run: all of them succeed; the SDK's
  migration copies the record under the source identity's key to the target identity's
  key and answers true, and answers false when a key cannot be derived or there is no
  record to copy; the code exchange stores the fresh credential under the client id's key.
\<close>

definition sample_migrate ::
  "TokenIdentifiers \<Rightarrow> TokenIdentifiers \<Rightarrow> nat \<Rightarrow> (string \<rightharpoonup> json)
     \<Rightarrow> bool \<times> (string \<rightharpoonup> json)" where
  "sample_migrate a b t k =
     (case generateKey ''token:'' a of
        Inl e \<Rightarrow> (False, k)
      | Inr fromKey \<Rightarrow>
          (case generateKey ''token:'' b of
             Inl e \<Rightarrow> (False, k)
           | Inr toKey \<Rightarrow>
               (case k fromKey of
                  None \<Rightarrow> (False, k)
                | Some v \<Rightarrow> (True, k(toKey \<mapsto> v)))))"

definition sample_request :: AuthRequest where
  "sample_request =
     \<lparr>ar_clientId = Some ''c1'', ar_redirectUri = Some ''https://client/cb'',
      ar_scope = Some [''api'']\<rparr>"

definition sample_ext :: ext where
  "sample_ext =
     \<lparr>TOKEN_KEY_PREFIX = ''token:'',
      kv_fault = (\<lambda>t. None),
      sdk_migrate = sample_migrate,
      getConfig = (\<lambda>t. Inr \<lparr>SCHWAB_CLIENT_ID = ''app'',
                              SCHWAB_REDIRECT_URI = ''https://mcp/callback''\<rparr>),
      parseRedirectApproval = (\<lambda>raw t. Inr (Some sample_request)),
      redirectToSchwab = (\<lambda>r t. Inr (Redirect ''https://provider/authorize'')),
      decodeAndVerifyState = (\<lambda>st t. Inr (Some sample_request)),
      extractClientIdFromState = (\<lambda>r. Inr (the_id (ar_clientId r))),
      initializeSchwabAuthClient = (\<lambda>t. Inr 1),
      exchangeCode = (\<lambda>tm code st t k.
        (Inr (), k(''token:c1'' \<mapsto> JObj [(''accessToken'', JStr code)]))),
      createApiClient = (\<lambda>tm t. Inr 2),
      getUserPreference = (\<lambda>c t. Inr (Some (Some [Some ''u1'']))),
      completeAuthorization = (\<lambda>r u p t. Inr ''https://client/cb?code=ok''),
      mapSchwabError = (\<lambda>code. AuthCallback),
      registerTools = (\<lambda>c t. Inr ()),
      tm_getAccessToken = (\<lambda>tm t k. (Inr (Some ''live''), k)),
      tm_initialize = (\<lambda>tm t k. (Inr True, k)),
      settles = (\<lambda>t. True)\<rparr>"

text \<open>
  The token manager has lost its credential: the probe throws and the reload answers
  false.
\<close>

definition expired_ext :: ext where
  "expired_ext = sample_ext
     \<lparr>tm_getAccessToken := (\<lambda>tm t k. (Inl (JsError ''refresh token expired''), k)),
      tm_initialize := (\<lambda>tm t k. (Inr False, k))\<rparr>"

text \<open>
  The code exchange succeeds and leaves no record under the client id's key: the state
  for which the guard on line 305 is there.
\<close>

definition unsaved_ext :: ext where
  "unsaved_ext = sample_ext\<lparr>exchangeCode := (\<lambda>tm code st t k. (Inr (), k))\<rparr>"

definition sample_callback :: callback_request where
  "sample_callback = \<lparr>q_state = Some ''s1'', q_code = Some ''code1''\<rparr>"

definition world0 :: world where
  "world0 = \<lparr>kv = Map.empty, calls = [], logs = []\<rparr>"

text \<open>A record under the user id's key left by an earlier authorization, none under the
  client id's key.\<close>

definition stale_world :: world where
  "stale_world = \<lparr>kv = [''token:u1'' \<mapsto> JStr ''old''], calls = [], logs = []\<rparr>"

text \<open>The fresh credential under the client id's key, as the code exchange leaves it.\<close>

definition fresh_token :: json where
  "fresh_token = JObj [(''accessToken'', JStr ''a1''), (''refreshToken'', JStr ''r1'')]"

definition exchanged_world :: world where
  "exchanged_world =
     \<lparr>kv = [''token:u1'' \<mapsto> JStr ''old'', ''token:c1'' \<mapsto> fresh_token],
      calls = [], logs = []\<rparr>"

text \<open>A session before its first \<^verbatim>\<open>init\<close>, with and without a client id in its props,
  and an established one.\<close>

definition session0 :: session where
  "session0 = \<lparr>kv = Map.empty, calls = [], logs = [],
               props = \<lparr>schwabUserId = None, clientId = Some ''c1''\<rparr>,
               tokenManager = None, client = None, validatedConfig = None,
               statusRegistered = False, unsettled = 0\<rparr>"

definition bare_session :: session where
  "bare_session = \<lparr>kv = Map.empty, calls = [], logs = [],
               props = \<lparr>schwabUserId = None, clientId = None\<rparr>,
               tokenManager = None, client = None, validatedConfig = None,
               statusRegistered = False, unsettled = 0\<rparr>"

definition session1 :: session where
  "session1 = \<lparr>kv = Map.empty, calls = [], logs = [],
               props = \<lparr>schwabUserId = None, clientId = Some ''c1''\<rparr>,
               tokenManager = Some 1, client = Some 2, validatedConfig = None,
               statusRegistered = True, unsettled = 0\<rparr>"

section \<open>Basic facts\<close>

lemmas prog_defs = ret_def throw_def lift_def andThen_def try_catch_def log_def
  call_pure_def call_kv_def reading_def modify_def

lemmas store_defs = kvToken_load_def kvToken_save_def kvToken_kvKey_def kv_get_def kv_put_def
  generateKey_def present_def the_id_def

lemmas preamble_defs = logged_def reconnect_preamble_def reinit_preamble_def
  emergency_preamble_def

lemmas run_defs = init_def initSteps_def registerStatus_def probe_def reload_def prog_defs
  kvToken_kvKey_def getTokenIds_def backfill_def startInitialize_def await_def suspend_def
  migrateIfNeeded_def sdkStore_generateKey_def generateKey_def present_def the_id_def

lemma pair_fst: "fst p = a \<Longrightarrow> p = (a, snd p)"
  by (cases p) simp

lemma andThen_log: "andThen (log l m) f s = f () (s\<lparr>logs := logs s @ [(l, m)]\<rparr>)"
  by (simp add: andThen_def log_def)

lemma try_catch_total:
  assumes "\<And>e t. \<exists>x t'. h e t = (Inr x, t')"
  shows "\<exists>x s'. try_catch m h s = (Inr x, s')"
proof (cases "m s")
  case (Pair r s1)
  show ?thesis
  proof (cases r)
    case (Inl e)
    with Pair assms [of e s1] show ?thesis by (simp add: try_catch_def)
  next
    case (Inr x)
    with Pair show ?thesis by (simp add: try_catch_def)
  qed
qed

section \<open>Key derivation: properties\<close>

text \<open>
  C6. Key derivation returns the prefix followed by the canonical id (\<open>schwabUserId\<close>)
  when that id is present; otherwise the prefix followed by the fallback id
  (\<open>clientId\<close>) when that one is present; when neither is present it fails with
  \<open>IdentityMissing\<close>, and so it does on the empty identity. An identifier is present
  when it is defined and not the empty string, which is the test the source applies.
\<close>

theorem generateKey_precedence:
  "(\<forall>u. schwabUserId ids = Some u \<and> u \<noteq> [] \<longrightarrow> generateKey pfx ids = Inr (pfx @ u))
   \<and> (\<forall>c. \<not> present (schwabUserId ids) \<and> clientId ids = Some c \<and> c \<noteq> []
          \<longrightarrow> generateKey pfx ids = Inr (pfx @ c))
   \<and> (\<not> present (schwabUserId ids) \<and> \<not> present (clientId ids)
          \<longrightarrow> generateKey pfx ids = Inl IdentityMissing)
   \<and> generateKey pfx \<lparr>schwabUserId = None, clientId = None\<rparr> = Inl IdentityMissing"
  by (simp add: generateKey_def present_def the_id_def)

theorem generateKey_precedence_witness:
  "generateKey ''token:'' \<lparr>schwabUserId = Some ''u1'', clientId = Some ''c1''\<rparr>
     = Inr ''token:u1''
   \<and> generateKey ''token:'' \<lparr>schwabUserId = None, clientId = Some ''c1''\<rparr>
     = Inr ''token:c1''
   \<and> generateKey ''token:'' \<lparr>schwabUserId = Some '''', clientId = None\<rparr>
     = Inl IdentityMissing"
  using generateKey_precedence [of "\<lparr>schwabUserId = Some ''u1'', clientId = Some ''c1''\<rparr>" "''token:''"]
    generateKey_precedence [of "\<lparr>schwabUserId = None, clientId = Some ''c1''\<rparr>" "''token:''"]
    generateKey_precedence [of "\<lparr>schwabUserId = Some '''', clientId = None\<rparr>" "''token:''"]
  by (simp add: present_def)

section \<open>The token store: properties\<close>




section \<open>Dual-key persistence: properties\<close>

text \<open>
  C1, as the code has it. When the persistence step of the callback runs with client id
  \<open>cid\<close> and user id \<open>uid\<close> (both non-empty), a truthy record \<open>v\<close> lies under the
  client id's key and the namespace does not fail, the step reads that record, writes it
  first under the user id's key and then under the client id's key, and afterwards a load
  by the user id and a load by the client id both return \<open>v\<close>.
\<close>

theorem persistDualKey_both_keys:
  "cid \<noteq> [] \<Longrightarrow> uid \<noteq> [] \<Longrightarrow> \<forall>t. kv_fault E t = None \<Longrightarrow>
   kv w (TOKEN_KEY_PREFIX E @ cid) = Some v \<Longrightarrow> truthy v \<Longrightarrow>
   \<exists>w'. persistDualKey E cid uid w = (Inr (), w')
      \<and> calls w' = calls w @ [KvGet (TOKEN_KEY_PREFIX E @ cid),
                               KvPut (TOKEN_KEY_PREFIX E @ uid) v,
                               KvPut (TOKEN_KEY_PREFIX E @ cid) v]
      \<and> fst (kvToken_load E \<lparr>schwabUserId = Some uid, clientId = None\<rparr> w') = Inr v
      \<and> fst (kvToken_load E \<lparr>schwabUserId = None, clientId = Some cid\<rparr> w') = Inr v"
  by (auto simp add: persistDualKey_def store_defs prog_defs split: sum.splits option.splits)

theorem persistDualKey_both_keys_witness:
  "\<exists>w'. persistDualKey sample_ext ''c1'' ''u1'' exchanged_world = (Inr (), w')
      \<and> calls w' = [KvGet ''token:c1'', KvPut ''token:u1'' fresh_token,
                    KvPut ''token:c1'' fresh_token]
      \<and> fst (kvToken_load sample_ext \<lparr>schwabUserId = Some ''u1'', clientId = None\<rparr> w')
          = Inr fresh_token
      \<and> fst (kvToken_load sample_ext \<lparr>schwabUserId = None, clientId = Some ''c1''\<rparr> w')
          = Inr fresh_token"
proof -
  have p: "TOKEN_KEY_PREFIX sample_ext = ''token:''" and f: "\<forall>t. kv_fault sample_ext t = None"
    by (simp_all add: sample_ext_def)
  have c: "calls exchanged_world = []"
    and k: "kv exchanged_world (TOKEN_KEY_PREFIX sample_ext @ ''c1'') = Some fresh_token"
    by (simp_all add: exchanged_world_def sample_ext_def)
  have t: "truthy fresh_token"
    by (simp add: fresh_token_def)
  show ?thesis
    using persistDualKey_both_keys [OF _ _ f k t, of "''u1''"]
    by (auto simp add: p c)
qed

text \<open>
  C1 as stated fails: with no record under the client id's key and an older record under
  the user id's key, the step writes nothing, and afterwards the load by the user id
  returns the older record while the load by the client id returns \<^verbatim>\<open>null\<close>.
\<close>

theorem persistDualKey_skips_without_record:
  "fst (kvToken_load sample_ext \<lparr>schwabUserId = Some ''u1'', clientId = None\<rparr>
          (snd (persistDualKey sample_ext ''c1'' ''u1'' stale_world))) = Inr (JStr ''old'')
   \<and> fst (kvToken_load sample_ext \<lparr>schwabUserId = None, clientId = Some ''c1''\<rparr>
          (snd (persistDualKey sample_ext ''c1'' ''u1'' stale_world))) = Inr JNull"
  by (simp add: persistDualKey_def store_defs prog_defs stale_world_def sample_ext_def)

section \<open>The authorization endpoints: properties\<close>

text \<open>
  C4. For a callback request whose \<open>state\<close> or \<open>code\<close> query value is missing (absent
  or empty), the only call the endpoint makes is the resolution of the configuration: no
  state decoding, no code exchange, no identity lookup, no read or write of the
  namespace, no completion. Once the configuration is resolved, the response is the
  \<open>MissingParameters\<close> error.
\<close>

theorem callback_missing_parameters:
  "\<not> present (q_state req) \<or> \<not> present (q_code req) \<Longrightarrow>
   calls (snd (callback E req w)) = calls w @ [GetConfig]
   \<and> kv (snd (callback E req w)) = kv w
   \<and> (\<forall>cfg. getConfig E (length (calls w)) = Inr cfg \<longrightarrow>
         callback E req w
           = (Inr (JsonError MissingParameters),
              w\<lparr>calls := calls w @ [GetConfig],
                logs := logs w @ [(Err, ''MissingParameters'')]\<rparr>))"
  by (auto simp add: callback_def prog_defs split: sum.splits)

theorem callback_missing_parameters_witness:
  "\<not> present (q_code \<lparr>q_state = Some ''s1'', q_code = None\<rparr>)
   \<and> calls (snd (callback sample_ext \<lparr>q_state = Some ''s1'', q_code = None\<rparr> world0))
       = [GetConfig]
   \<and> fst (callback sample_ext \<lparr>q_state = Some ''s1'', q_code = None\<rparr> world0)
       = Inr (JsonError MissingParameters)"
proof -
  have h: "\<not> present (q_state \<lparr>q_state = Some ''s1'', q_code = None\<rparr>)
           \<or> \<not> present (q_code \<lparr>q_state = Some ''s1'', q_code = None\<rparr>)"
    by (simp add: present_def)
  have g: "getConfig sample_ext (length (calls world0))
             = Inr \<lparr>SCHWAB_CLIENT_ID = ''app'', SCHWAB_REDIRECT_URI = ''https://mcp/callback''\<rparr>"
    by (simp add: sample_ext_def)
  have c: "calls world0 = []"
    by (simp add: world0_def)
  show ?thesis
    using callback_missing_parameters [OF h, of sample_ext world0] g h
    by (auto simp add: c present_def)
qed

text \<open>
  C7, as the code has it. On approval submission, once the configuration is resolved and
  the form is parsed: if the embedded pending-authorization state is missing, the endpoint
  fails with \<open>MissingState\<close>; if that state lacks the client id or the scope, it fails
  with \<open>InvalidState\<close>; otherwise, whether or not a redirect URI is there, it calls the
  provider redirect and answers what that returns (\<open>AuthApproval\<close> if that call throws).
\<close>

theorem approve_outcomes:
  "getConfig E (length (calls w)) = Inr cfg \<Longrightarrow>
   parseRedirectApproval E raw (Suc (length (calls w))) = Inr st \<Longrightarrow>
   (st = None \<longrightarrow> fst (approve E raw w) = Inr (JsonError MissingState))
   \<and> (\<forall>r. st = Some r \<and> (\<not> present (ar_clientId r) \<or> ar_scope r = None)
          \<longrightarrow> fst (approve E raw w) = Inr (JsonError InvalidState))
   \<and> (\<forall>r. st = Some r \<and> present (ar_clientId r) \<and> ar_scope r \<noteq> None
          \<longrightarrow> fst (approve E raw w)
                = (case redirectToSchwab E r (length (calls w) + 2) of
                     Inl e \<Rightarrow> Inr (JsonError AuthApproval) | Inr resp \<Rightarrow> Inr resp)
              \<and> calls (snd (approve E raw w))
                = calls w @ [GetConfig, ParseRedirectApproval, RedirectToSchwab])"
  by (auto simp add: approve_def prog_defs split: sum.splits)

theorem approve_outcomes_witness:
  "fst (approve (sample_ext\<lparr>parseRedirectApproval := (\<lambda>raw t. Inr None)\<rparr>) ''approve'' world0)
     = Inr (JsonError MissingState)
   \<and> fst (approve (sample_ext\<lparr>parseRedirectApproval :=
             (\<lambda>raw t. Inr (Some \<lparr>ar_clientId = Some ''c1'',
                                  ar_redirectUri = Some ''https://client/cb'',
                                  ar_scope = None\<rparr>))\<rparr>) ''approve'' world0)
     = Inr (JsonError InvalidState)
   \<and> fst (approve sample_ext ''approve'' world0) = Inr (Redirect ''https://provider/authorize'')
   \<and> calls (snd (approve sample_ext ''approve'' world0))
     = [GetConfig, ParseRedirectApproval, RedirectToSchwab]"
proof -
  let ?cfg = "\<lparr>SCHWAB_CLIENT_ID = ''app'', SCHWAB_REDIRECT_URI = ''https://mcp/callback''\<rparr>"
  let ?E1 = "sample_ext\<lparr>parseRedirectApproval := (\<lambda>raw t. Inr None)\<rparr>"
  let ?r2 = "\<lparr>ar_clientId = Some ''c1'', ar_redirectUri = Some ''https://client/cb'',
              ar_scope = None\<rparr>"
  let ?E2 = "sample_ext\<lparr>parseRedirectApproval := (\<lambda>raw t. Inr (Some ?r2))\<rparr>"
  have g1: "getConfig ?E1 (length (calls world0)) = Inr ?cfg"
    and g2: "getConfig ?E2 (length (calls world0)) = Inr ?cfg"
    and g3: "getConfig sample_ext (length (calls world0)) = Inr ?cfg"
    by (simp_all add: sample_ext_def)
  have p1: "parseRedirectApproval ?E1 ''approve'' (Suc (length (calls world0))) = Inr None"
    and p2: "parseRedirectApproval ?E2 ''approve'' (Suc (length (calls world0))) = Inr (Some ?r2)"
    and p3: "parseRedirectApproval sample_ext ''approve'' (Suc (length (calls world0)))
               = Inr (Some sample_request)"
    by (simp_all add: sample_ext_def)
  have r3: "redirectToSchwab sample_ext sample_request (length (calls world0) + 2)
              = Inr (Redirect ''https://provider/authorize'')"
    by (simp add: sample_ext_def)
  have c: "calls world0 = []"
    by (simp add: world0_def)
  have ok: "present (ar_clientId sample_request) \<and> ar_scope sample_request \<noteq> None"
    by (simp add: sample_request_def present_def)
  show ?thesis
    using approve_outcomes [OF g1 p1] approve_outcomes [OF g2 p2] approve_outcomes [OF g3 p3]
      r3 ok
    by (simp add: c)
qed

text \<open>
  C7 as stated fails twice: a submission without the embedded state is answered with
  \<open>MissingState\<close>, not \<open>InvalidState\<close>; and a state that has client id and scope but
  no redirect URI is not rejected but sent on to the provider redirect.
\<close>

theorem approve_missing_state_and_redirectUri:
  "fst (approve (sample_ext\<lparr>parseRedirectApproval := (\<lambda>raw t. Inr None)\<rparr>) ''approve'' world0)
     = Inr (JsonError MissingState)
   \<and> fst (approve (sample_ext\<lparr>parseRedirectApproval :=
             (\<lambda>raw t. Inr (Some \<lparr>ar_clientId = Some ''c1'', ar_redirectUri = None,
                                  ar_scope = Some [''api'']\<rparr>))\<rparr>) ''approve'' world0)
     = Inr (Redirect ''https://provider/authorize'')"
  by (simp add: approve_def prog_defs sample_ext_def world0_def present_def)

text \<open>
  Lines 299 to 329 without a record under the client id's key: the step ends normally,
  has written nothing, and has made at most the read of that key.
\<close>

lemma persistDualKey_without_record:
  "kv w (TOKEN_KEY_PREFIX E @ cid) = None \<Longrightarrow>
   persistDualKey E cid uid w
     = (Inr (),
        if cid = [] then w\<lparr>logs := logs w @ [(Warn, ''Token save failed, continuing with authorization'')]\<rparr>
        else w\<lparr>calls := calls w @ [KvGet (TOKEN_KEY_PREFIX E @ cid)],
                logs := logs w @ (case kv_fault E (length (calls w)) of
                                   None \<Rightarrow> []
                                 | Some e \<Rightarrow> [(Warn, ''Token save failed, continuing with authorization'')])\<rparr>)"
  by (auto simp add: persistDualKey_def store_defs prog_defs IdentityMissing_def
       split: sum.splits option.splits)

text \<open>
  C9. Take a run of the callback that gets as far as the persistence step: configuration
  resolved, both query values there, the state decoded with its required fields, the code
  exchanged, the client built and a user id found. If at that moment (in the namespace
  \<open>k1\<close> that the code exchange left) no record lies under the client id's key, then the
  callback writes nothing: when it ends the namespace is still \<open>k1\<close>, under both keys
  and every other. Nothing is raised by the step: after the read of the client id's key
  (no read at all for an empty client id) the next and last call is the provider's
  \<open>completeAuthorization\<close>, and the callback answers with the redirect to the target
  that call returns.
\<close>

theorem callback_without_record_completes:
  assumes "getConfig E (length (calls w)) = Inr cfg"
    and "q_state req = Some st" and "st \<noteq> []" and "q_code req = Some code" and "code \<noteq> []"
    and "decodeAndVerifyState E st (length (calls w) + 1) = Inr (Some decoded)"
    and "extractClientIdFromState E decoded = Inr cid"
    and "present (ar_clientId decoded)" and "present (ar_redirectUri decoded)"
    and "ar_scope decoded = Some scope"
    and "initializeSchwabAuthClient E (length (calls w) + 2) = Inr auth"
    and "exchangeCode E auth code st (length (calls w) + 3) (kv w) = (Inr (), k1)"
    and "createApiClient E auth (length (calls w) + 4) = Inr cl"
    and "getUserPreference E cl (length (calls w) + 5) = Inr prefs"
    and "correlId prefs = Some uid" and "uid \<noteq> []"
    and "k1 (TOKEN_KEY_PREFIX E @ cid) = None"
  shows "kv (snd (callback E req w)) = k1
     \<and> calls (snd (callback E req w))
       = calls w @ [GetConfig, DecodeAndVerifyState, InitializeSchwabAuthClient,
                    ExchangeCode code st, CreateApiClient, GetUserPreference]
           @ (if cid = [] then [] else [KvGet (TOKEN_KEY_PREFIX E @ cid)])
           @ [CompleteAuthorization uid]
     \<and> (\<forall>target.
          completeAuthorization E decoded uid \<lparr>schwabUserId = Some uid, clientId = Some cid\<rparr>
            (length (calls w) + (if cid = [] then 6 else 7)) = Inr target
          \<longrightarrow> fst (callback E req w) = Inr (Redirect target))"
proof -
  let ?w1 = "w\<lparr>kv := k1,
               logs := logs w @ [(Info, ''Exchanging authorization code for tokens''),
                                 (Info, ''Token exchange successful''),
                                 (Info, ''Creating Schwab API client''),
                                 (Info, ''Fetching user preferences to get Schwab user ID'')],
               calls := calls w @ [GetConfig, DecodeAndVerifyState, InitializeSchwabAuthClient,
                    ExchangeCode code st, CreateApiClient, GetUserPreference]\<rparr>"
  have norec: "kv ?w1 (TOKEN_KEY_PREFIX E @ cid) = None"
    using assms(17) by simp
  have run: "callback E req w
      = try_catch
          (andThen (persistDualKey E cid uid) (\<lambda>_. completeFlow E decoded cid uid))
          (\<lambda>error. andThen (log Err ''Auth callback failed'')
                     (\<lambda>_. ret (JsonError (callback_error E error)))) ?w1"
    using assms(1-16)
    by (simp add: callback_def prog_defs present_def the_id_def eval_nat_numeral)
  show ?thesis
    unfolding run
    using persistDualKey_without_record [OF norec, of uid]
    by (auto simp add: completeFlow_def prog_defs eval_nat_numeral
          split: sum.splits option.splits)
qed

theorem callback_without_record_completes_witness:
  "kv (snd (callback unsaved_ext sample_callback stale_world)) = kv stale_world
   \<and> kv stale_world ''token:c1'' = None
   \<and> calls (snd (callback unsaved_ext sample_callback stale_world))
       = [GetConfig, DecodeAndVerifyState, InitializeSchwabAuthClient,
          ExchangeCode ''code1'' ''s1'', CreateApiClient, GetUserPreference,
          KvGet ''token:c1'', CompleteAuthorization ''u1'']
   \<and> fst (callback unsaved_ext sample_callback stale_world)
       = Inr (Redirect ''https://client/cb?code=ok'')"
proof -
  let ?cfg = "\<lparr>SCHWAB_CLIENT_ID = ''app'', SCHWAB_REDIRECT_URI = ''https://mcp/callback''\<rparr>"
  have c: "calls stale_world = []" and n: "kv stale_world ''token:c1'' = None"
    by (simp_all add: stale_world_def)
  have p: "TOKEN_KEY_PREFIX unsaved_ext = ''token:''"
    by (simp add: unsaved_ext_def sample_ext_def)
  have h1: "getConfig unsaved_ext (length (calls stale_world)) = Inr ?cfg"
    and h6: "decodeAndVerifyState unsaved_ext ''s1'' (length (calls stale_world) + 1)
               = Inr (Some sample_request)"
    and h7: "extractClientIdFromState unsaved_ext sample_request = Inr ''c1''"
    and h11: "initializeSchwabAuthClient unsaved_ext (length (calls stale_world) + 2) = Inr 1"
    and h12: "exchangeCode unsaved_ext 1 ''code1'' ''s1'' (length (calls stale_world) + 3)
                (kv stale_world) = (Inr (), kv stale_world)"
    and h13: "createApiClient unsaved_ext 1 (length (calls stale_world) + 4) = Inr 2"
    and h14: "getUserPreference unsaved_ext 2 (length (calls stale_world) + 5)
                = Inr (Some (Some [Some ''u1'']))"
    and h18: "completeAuthorization unsaved_ext sample_request ''u1''
                \<lparr>schwabUserId = Some ''u1'', clientId = Some ''c1''\<rparr>
                (length (calls stale_world) + (if ''c1'' = [] then 6 else 7))
              = Inr ''https://client/cb?code=ok''"
    by (simp_all add: unsaved_ext_def sample_ext_def sample_request_def the_id_def)
  have h2: "q_state sample_callback = Some ''s1''" and h4: "q_code sample_callback = Some ''code1''"
    by (simp_all add: sample_callback_def)
  have h8: "present (ar_clientId sample_request)" and h9: "present (ar_redirectUri sample_request)"
    and h10: "ar_scope sample_request = Some [''api'']"
    by (simp_all add: sample_request_def present_def)
  have h15: "correlId (Some (Some [Some ''u1''])) = Some ''u1''"
    by (simp add: correlId_def)
  have h17: "kv stale_world (TOKEN_KEY_PREFIX unsaved_ext @ ''c1'') = None"
    by (simp add: p n)
  show ?thesis
    using callback_without_record_completes [OF h1 h2 _ h4 _ h6 h7 h8 h9 h10 h11 h12 h13 h14 h15 _ h17]
      h18 n
    by (simp add: c p)
qed

section \<open>The session actor: invariants\<close>

lemma preserves_andThen:
  "preserves P m \<Longrightarrow> (\<And>x. preserves P (f x)) \<Longrightarrow> preserves P (andThen m f)"
  by (auto simp add: preserves_def andThen_def split: prod.splits sum.splits)

lemma preserves_try_catch:
  "preserves P m \<Longrightarrow> (\<And>e. preserves P (h e)) \<Longrightarrow> preserves P (try_catch m h)"
  by (auto simp add: preserves_def try_catch_def split: prod.splits sum.splits)

lemma preserves_if:
  "(c \<Longrightarrow> preserves P a) \<Longrightarrow> (\<not> c \<Longrightarrow> preserves P b) \<Longrightarrow> preserves P (if c then a else b)"
  by simp

lemma preserves_option:
  "(x = None \<Longrightarrow> preserves P a) \<Longrightarrow> (\<And>y. x = Some y \<Longrightarrow> preserves P (b y))
   \<Longrightarrow> preserves P (case x of None \<Rightarrow> a | Some y \<Rightarrow> b y)"
  by (cases x) simp_all

text \<open>Properties of the props and of the status tool's registration.\<close>

lemma keeps_await:
  "preserves (\<lambda>s. Q (props s) (statusRegistered s)) m
   \<Longrightarrow> preserves (\<lambda>s. Q (props s) (statusRegistered s)) (await E m)"
  by (auto simp add: preserves_def await_def suspend_def split: prod.splits option.splits)

lemma keeps_migrate:
  "preserves (\<lambda>s. Q (props s) (statusRegistered s)) (migrateIfNeeded E a b)"
  by (auto simp add: preserves_def migrateIfNeeded_def prog_defs split: prod.splits sum.splits)

text \<open>
  After the registration of the status tool, \<^verbatim>\<open>init\<close> changes \<^verbatim>\<open>props\<close> only by
  filling in a client id that is not there, and leaves the registration alone.
\<close>

lemma keeps_initSteps:
  assumes "\<And>p r c. Q p r \<Longrightarrow> \<not> present (clientId p) \<Longrightarrow> Q (p\<lparr>clientId := Some c\<rparr>) r"
  shows "preserves (\<lambda>s. Q (props s) (statusRegistered s)) (initSteps E)"
  unfolding initSteps_def
  by (intro preserves_andThen preserves_try_catch preserves_if preserves_option
        keeps_await keeps_migrate)
     (auto simp add: preserves_def prog_defs backfill_def startInitialize_def kvToken_kvKey_def
        assms)

lemma keeps_init:
  assumes "\<And>p r c. Q p r \<Longrightarrow> \<not> present (clientId p) \<Longrightarrow> Q (p\<lparr>clientId := Some c\<rparr>) r"
    and "\<And>p. Q p False \<Longrightarrow> Q p True"
  shows "preserves (\<lambda>s. Q (props s) (statusRegistered s)) (init E)"
  unfolding init_def
  by (intro preserves_andThen preserves_try_catch keeps_initSteps assms(1))
     (auto simp add: preserves_def prog_defs registerStatus_def assms(2))

lemma keeps_probe: "preserves (\<lambda>s. Q (props s) (statusRegistered s)) (probe E tm)"
  unfolding probe_def
  by (intro preserves_andThen preserves_try_catch preserves_if keeps_await)
     (auto simp add: preserves_def prog_defs split: prod.splits)

lemma keeps_reload: "preserves (\<lambda>s. Q (props s) (statusRegistered s)) (reload E tm)"
  unfolding reload_def
  by (intro preserves_andThen preserves_try_catch preserves_if keeps_await)
     (auto simp add: preserves_def prog_defs split: prod.splits)

lemma keeps_onReconnect:
  assumes "\<And>p r c. Q p r \<Longrightarrow> \<not> present (clientId p) \<Longrightarrow> Q (p\<lparr>clientId := Some c\<rparr>) r"
    and "\<And>p. Q p False \<Longrightarrow> Q p True"
  shows "preserves (\<lambda>s. Q (props s) (statusRegistered s)) (onReconnect E)"
  unfolding onReconnect_def
  by (intro preserves_andThen preserves_try_catch preserves_if preserves_option
        keeps_init keeps_probe keeps_reload assms)
     (auto simp add: preserves_def prog_defs)

lemma ids_ok_backfill:
  "ids_ok p \<Longrightarrow> \<not> present (clientId p) \<Longrightarrow> ids_ok (p\<lparr>clientId := Some c\<rparr>)"
  by (simp add: ids_ok_def)

text \<open>A run of \<^verbatim>\<open>init\<close> that ends normally has derived the key on line 101.\<close>

lemma init_key:
  "init E s = (Inr (), s1) \<Longrightarrow>
   \<exists>key. generateKey (TOKEN_KEY_PREFIX E) (getTokenIds s1) = Inr key"
  by (auto simp add: init_def initSteps_def registerStatus_def prog_defs kvToken_kvKey_def
        getTokenIds_def backfill_def startInitialize_def await_def suspend_def
        migrateIfNeeded_def sdkStore_generateKey_def
      split: sum.splits option.splits prod.splits if_splits)

lemma init_ids_ok: "init E s = (Inr (), s1) \<Longrightarrow> ids_ok (props s1)"
  using init_key [of E s s1]
  by (auto simp add: generateKey_def getTokenIds_def ids_ok_def split: if_splits)

lemma later_ids_ok: "later s1 t \<Longrightarrow> ids_ok (props s1) \<Longrightarrow> ids_ok (props t)"
proof (induction rule: later.induct)
  case later_now
  then show ?case by simp
next
  case (later_init t E)
  then show ?case
    using keeps_init [of "\<lambda>p r. ids_ok p" E, OF ids_ok_backfill] by (simp add: preserves_def)
next
  case (later_reconnect t E)
  then show ?case
    using keeps_onReconnect [of "\<lambda>p r. ids_ok p" E, OF ids_ok_backfill]
    by (simp add: preserves_def)
next
  case (later_outside t t')
  then show ?case by simp
qed

lemma ids_ok_key: "ids_ok (props t) \<Longrightarrow> \<exists>key. generateKey pfx (getTokenIds t) = Inr key"
  by (auto simp add: ids_ok_def generateKey_def getTokenIds_def)

lemma load_reaches_store:
  "generateKey (TOKEN_KEY_PREFIX E) (getTokenIds t) = Inr key \<Longrightarrow>
   calls (snd (loadTokenForETM E t)) = calls t @ [KvGet key]
   \<and> fst (loadTokenForETM E t)
       = (case kv_fault E (length (calls t)) of
            Some e \<Rightarrow> Inl e
          | None \<Rightarrow> Inr (case kv t key of None \<Rightarrow> JNull | Some v \<Rightarrow> v))"
  by (simp add: loadTokenForETM_def kvToken_load_def kvToken_kvKey_def kv_get_def prog_defs
      split: option.splits)

lemma save_reaches_store:
  "generateKey (TOKEN_KEY_PREFIX E) (getTokenIds t) = Inr key \<Longrightarrow>
   calls (snd (saveTokenForETM E d t)) = calls t @ [KvPut key d]
   \<and> fst (saveTokenForETM E d t)
       = (case kv_fault E (length (calls t)) of Some e \<Rightarrow> Inl e | None \<Rightarrow> Inr ())"
  by (simp add: saveTokenForETM_def kvToken_save_def kvToken_kvKey_def kv_put_def prog_defs
       getTokenIds_def split: option.splits)

text \<open>
  Without a user id in the props there is no \<^verbatim>\<open>await\<close> between the start of the token
  manager's initialization and the construction of the client: whatever the collaborators
  do, a run of \<^verbatim>\<open>init\<close> that ends normally has built the client right after starting
  the initialization and returns with one more unsettled promise.
\<close>

lemma init_leaves_initialize_unsettled:
  "\<not> present (schwabUserId (props s)) \<Longrightarrow> init E s = (Inr (), s') \<Longrightarrow>
   unsettled s' = unsettled s + 1 \<and> client s' \<noteq> None
   \<and> (\<exists>pre. calls s' = calls s @ pre @ [TmInitializeCalled, CreateApiClient, RegisterTools])"
  by (auto simp add: init_def initSteps_def registerStatus_def prog_defs kvToken_kvKey_def
        getTokenIds_def backfill_def startInitialize_def
      split: sum.splits option.splits prod.splits if_splits)

section \<open>The session actor: the status tool and the token manager\<close>

text \<open>
  On a server that has the status tool, \<^verbatim>\<open>init\<close> throws at its first statement and
  changes nothing but the history and the log.
\<close>

lemma init_on_registered_server:
  "statusRegistered s \<Longrightarrow>
   init E s = (Inl (JsError ''Tool status is already registered''),
               s\<lparr>calls := calls s @ [ServerTool],
                 logs := logs s @ [(Err, ''[MyMCP.init] FINAL CATCH: UNHANDLED EXCEPTION in init()'')]\<rparr>)"
  by (simp add: init_def registerStatus_def prog_defs)

text \<open>Whatever it does, a run of \<^verbatim>\<open>init\<close> leaves the status tool registered.\<close>

lemma init_registers_status: "statusRegistered (snd (init E s))"
proof (cases "statusRegistered s")
  case True
  then show ?thesis by (simp add: init_on_registered_server)
next
  case False
  let ?s1 = "s\<lparr>calls := calls s @ [ServerTool], statusRegistered := True\<rparr>"
  let ?h = "\<lambda>error. andThen (log Err ''[MyMCP.init] FINAL CATCH: UNHANDLED EXCEPTION in init()'')
                       (\<lambda>_. throw error)"
  have run: "init E s = try_catch (initSteps E) ?h ?s1"
    using False by (simp add: init_def registerStatus_def try_catch_def andThen_def)
  have "preserves (\<lambda>s. (\<lambda>p r. r) (props s) (statusRegistered s)) (try_catch (initSteps E) ?h)"
    by (intro preserves_try_catch preserves_andThen keeps_initSteps)
       (auto simp add: preserves_def prog_defs)
  then have "statusRegistered (snd (try_catch (initSteps E) ?h ?s1))"
    by (simp add: preserves_def)
  with run show ?thesis by simp
qed

lemma probe_frame:
  "tokenManager (snd (probe E tm s)) = tokenManager s
   \<and> statusRegistered (snd (probe E tm s)) = statusRegistered s"
  by (auto simp add: probe_def prog_defs await_def suspend_def
      split: sum.splits prod.splits option.splits)

lemma reload_frame:
  "tokenManager (snd (reload E tm s)) = tokenManager s
   \<and> statusRegistered (snd (reload E tm s)) = statusRegistered s"
  by (auto simp add: reload_def prog_defs await_def suspend_def
      split: sum.splits prod.splits option.splits)

text \<open>
  The token manager is assigned on line 139, after the status tool was registered on line
  55: an actor that has a token manager has the status tool on its server.
\<close>

lemma reachable_status:
  "reachable s \<Longrightarrow> tokenManager s \<noteq> None \<Longrightarrow> statusRegistered s"
proof (induction rule: reachable.induct)
  case (constructed s)
  then show ?case by simp
next
  case (after_init s E)
  show ?case by (rule init_registers_status)
next
  case (after_reconnect s E)
  show ?case
  proof (cases "tokenManager s")
    case None
    then have "onReconnect E s =
        try_catch
          (andThen (log Warn ''Token manager not initialized, attempting full initialization'')
             (\<lambda>_. andThen (init E) (\<lambda>_. ret True)))
          (\<lambda>error.
             andThen (log Err ''Critical error during reconnection handling'') (\<lambda>_.
             try_catch
               (andThen (log Warn
                  ''Attempting emergency reinitialization after reconnection failure'') (\<lambda>_.
                andThen (init E) (\<lambda>_. ret True)))
               (\<lambda>initError.
                  andThen (log Err ''Emergency reinitialization also failed'')
                    (\<lambda>_. ret False))))
          (s\<lparr>logs := logs s @ [(Info, ''Handling reconnection in MyMCP instance'')]\<rparr>)"
      by (simp add: onReconnect_def prog_defs)
    moreover have "\<And>t r t'. init E t = (r, t') \<Longrightarrow> statusRegistered t'"
      using init_registers_status by (metis snd_conv)
    ultimately show ?thesis
      by (auto simp add: prog_defs split: sum.splits prod.splits)
  next
    case (Some tm)
    with after_reconnect.IH have "statusRegistered s" by simp
    then show ?thesis
      using keeps_onReconnect [of "\<lambda>p r. r" E] by (simp add: preserves_def)
  qed
next
  case (after_outside s t)
  then show ?case by simp
qed

section \<open>The session actor: how a reconnection ends\<close>

lemma onReconnect_total: "\<exists>b s'. onReconnect E s = (Inr b, s')"
  unfolding onReconnect_def
  apply (simp only: andThen_log)
  apply (rule try_catch_total)
  apply (simp only: andThen_log)
  apply (rule try_catch_total)
  apply (auto simp add: prog_defs)
  done

lemma onReconnect_reinit:
  "tokenManager s = Some tm \<Longrightarrow>
   probe E tm (logged reconnect_preamble s) = (Inr None, s2) \<Longrightarrow>
   reload E tm s2 = (Inr None, s3) \<Longrightarrow>
   onReconnect E s =
     (case init E (logged reinit_preamble s3) of
        (Inr u, s4) \<Rightarrow> (Inr True, s4)
      | (Inl e, s4) \<Rightarrow>
         (case init E (logged emergency_preamble s4) of
            (Inr u, s5) \<Rightarrow> (Inr True, s5)
          | (Inl e', s5) \<Rightarrow>
              (Inr False, logged [(Err, ''Emergency reinitialization also failed'')] s5)))"
  by (simp add: onReconnect_def prog_defs preamble_defs split: sum.splits prod.splits)

section \<open>The session actor: properties\<close>

text \<open>
  C3, run on the code. A session that holds only a client id is initialized with
  collaborators that all succeed. \<^verbatim>\<open>init\<close> starts \<^verbatim>\<open>tokenManager.initialize()\<close>
  without awaiting it and builds the API client in the same turn: the very next call after
  the start of the initialization is the construction of the client, no settlement of the
  initialization lies before it, and when \<^verbatim>\<open>init\<close> returns, with the client in
  place, the promise of the initialization is still unsettled.
\<close>

theorem init_builds_client_before_initialize_settles:
  "\<exists>s'. init sample_ext session0 = (Inr (), s')
      \<and> calls s' = [ServerTool, GetConfig, InitializeSchwabAuthClient, TmInitializeCalled,
                    CreateApiClient, RegisterTools]
      \<and> tokenManager s' = Some 1 \<and> client s' = Some 2 \<and> unsettled s' = 1"
  by (simp add: run_defs sample_ext_def session0_def)

text \<open>
  C8. If the session has a token manager and its liveness probe succeeds (\<open>getAccessToken\<close>
  returns a non-empty token), \<open>onReconnect\<close> returns true, the token manager, the client
  and the props are the same as before, and the only call made is the probe itself: neither
  the token manager's \<open>initialize\<close> nor anything of \<^verbatim>\<open>init\<close> is invoked. (While the
  probe is awaited, an initialization started earlier may settle.)
\<close>

theorem onReconnect_probe_success_frame:
  "tokenManager s = Some tm \<Longrightarrow>
   tm_getAccessToken E tm (length (calls s)) (kv s) = (Inr (Some tok), k') \<Longrightarrow> tok \<noteq> [] \<Longrightarrow>
   \<exists>s'. onReconnect E s = (Inr True, s') \<and> tokenManager s' = tokenManager s
     \<and> client s' = client s \<and> props s' = props s
     \<and> (calls s' = calls s @ [TmGetAccessToken]
        \<or> calls s' = calls s @ [TmGetAccessToken, TmInitializeSettled])"
  by (auto simp add: onReconnect_def probe_def await_def suspend_def prog_defs present_def
      split: prod.splits)

theorem onReconnect_probe_success_frame_witness:
  "tokenManager session1 = Some 1
   \<and> (\<exists>s'. onReconnect sample_ext session1 = (Inr True, s') \<and> tokenManager s' = Some 1
         \<and> client s' = Some 2 \<and> props s' = props session1
         \<and> (calls s' = [TmGetAccessToken]
            \<or> calls s' = [TmGetAccessToken, TmInitializeSettled]))"
proof -
  have tm: "tokenManager session1 = Some 1" and cl: "client session1 = Some 2"
    and c: "calls session1 = []"
    by (simp_all add: session1_def)
  have g: "tm_getAccessToken sample_ext 1 (length (calls session1)) (kv session1)
             = (Inr (Some ''live''), kv session1)"
    by (simp add: sample_ext_def)
  have n: "''live'' \<noteq> []"
    by simp
  show ?thesis
    using onReconnect_probe_success_frame [OF tm g n] tm
    by (auto simp add: cl c)
qed

text \<open>
  C5. \<open>onReconnect\<close> never raises: from any state, in any environment, it returns a
  boolean. And for an actor that has a token manager, if the liveness probe fails, the
  soft reload fails and the full reinitialization throws, it returns false. (The emergency
  run of \<^verbatim>\<open>init\<close> in the final handler throws as the full reinitialization did: the
  status tool is on the server already.)
\<close>

theorem onReconnect_exhausted:
  "(\<exists>b s'. onReconnect E s = (Inr b, s'))
   \<and> (\<forall>tm s2 s3 e s4.
        reachable s \<and> tokenManager s = Some tm
        \<and> probe E tm (logged reconnect_preamble s) = (Inr None, s2)
        \<and> reload E tm s2 = (Inr None, s3)
        \<and> init E (logged reinit_preamble s3) = (Inl e, s4)
        \<longrightarrow> fst (onReconnect E s) = Inr False)"
proof (intro conjI allI impI)
  show "\<exists>b s'. onReconnect E s = (Inr b, s')"
    by (rule onReconnect_total)
next
  fix tm s2 s3 e s4
  assume h: "reachable s \<and> tokenManager s = Some tm
        \<and> probe E tm (logged reconnect_preamble s) = (Inr None, s2)
        \<and> reload E tm s2 = (Inr None, s3)
        \<and> init E (logged reinit_preamble s3) = (Inl e, s4)"
  then have reg: "statusRegistered s"
    using reachable_status [of s] by simp
  have "statusRegistered s2"
    using h reg probe_frame [of E tm "logged reconnect_preamble s"] by (simp add: logged_def)
  then have "statusRegistered s3"
    using h reload_frame [of E tm s2] by simp
  then have r3: "statusRegistered (logged reinit_preamble s3)"
    by (simp add: logged_def)
  have "statusRegistered s4"
    using h init_registers_status [of E "logged reinit_preamble s3"] by simp
  then have "statusRegistered (logged emergency_preamble s4)"
    by (simp add: logged_def)
  then have "fst (init E (logged emergency_preamble s4))
               = Inl (JsError ''Tool status is already registered'')"
    by (simp add: init_on_registered_server)
  moreover have "onReconnect E s =
     (case init E (logged emergency_preamble s4) of
        (Inr u, s5) \<Rightarrow> (Inr True, s5)
      | (Inl e', s5) \<Rightarrow>
          (Inr False, logged [(Err, ''Emergency reinitialization also failed'')] s5))"
    using h onReconnect_reinit [of s tm E s2 s3] by simp
  ultimately show "fst (onReconnect E s) = Inr False"
    by (simp add: split_beta split: sum.splits)
qed

theorem onReconnect_exhausted_witness:
  "tokenManager (snd (init sample_ext session0)) = Some 1
   \<and> fst (probe expired_ext 1 (logged reconnect_preamble (snd (init sample_ext session0))))
       = Inr None
   \<and> fst (onReconnect expired_ext (snd (init sample_ext session0))) = Inr False"
proof -
  let ?s = "snd (init sample_ext session0)"
  let ?s2 = "snd (probe expired_ext 1 (logged reconnect_preamble ?s))"
  let ?s3 = "snd (reload expired_ext 1 ?s2)"
  let ?s4 = "snd (init expired_ext (logged reinit_preamble ?s3))"
  have rs: "reachable ?s"
    by (rule after_init [OF constructed]) (simp add: session0_def)
  have tm: "tokenManager ?s = Some 1"
    by (simp add: run_defs sample_ext_def session0_def)
  have p: "fst (probe expired_ext 1 (logged reconnect_preamble ?s)) = Inr None"
    by (simp add: run_defs preamble_defs expired_ext_def sample_ext_def session0_def)
  have r: "fst (reload expired_ext 1 ?s2) = Inr None"
    by (simp add: run_defs preamble_defs expired_ext_def sample_ext_def session0_def)
  have i: "fst (init expired_ext (logged reinit_preamble ?s3))
             = Inl (JsError ''Tool status is already registered'')"
    by (simp add: run_defs preamble_defs expired_ext_def sample_ext_def session0_def)
  have "\<forall>tm s2 s3 e s4.
        reachable ?s \<and> tokenManager ?s = Some tm
        \<and> probe expired_ext tm (logged reconnect_preamble ?s) = (Inr None, s2)
        \<and> reload expired_ext tm s2 = (Inr None, s3)
        \<and> init expired_ext (logged reinit_preamble s3) = (Inl e, s4)
        \<longrightarrow> fst (onReconnect expired_ext ?s) = Inr False"
    using onReconnect_exhausted [of expired_ext ?s] by (rule conjunct2)
  then have "fst (onReconnect expired_ext ?s) = Inr False"
    using rs tm pair_fst [OF p] pair_fst [OF r] pair_fst [OF i] by blast
  with tm p show ?thesis by simp
qed

text \<open>
  C10. Once \<^verbatim>\<open>init\<close> has ended normally, in that state and in every later state of
  the session the identity that the credential closures pass on has at least one
  identifier: key derivation succeeds, so the closures \<open>loadTokenForETM\<close> and
  \<open>saveTokenForETM\<close> always get as far as the namespace (their one call is the read,
  respectively the write, of the derived key) and end normally unless the namespace itself
  fails. The \<open>IdentityMissing\<close> branch is never taken.
\<close>

theorem initialized_session_derives_key:
  assumes "init E s = (Inr (), s1)" and "later s1 t"
  shows "\<exists>key. generateKey (TOKEN_KEY_PREFIX E') (getTokenIds t) = Inr key
           \<and> calls (snd (loadTokenForETM E' t)) = calls t @ [KvGet key]
           \<and> (\<forall>d. calls (snd (saveTokenForETM E' d t)) = calls t @ [KvPut key d])
           \<and> (kv_fault E' (length (calls t)) = None \<longrightarrow>
                (\<exists>v. fst (loadTokenForETM E' t) = Inr v)
                \<and> (\<forall>d. fst (saveTokenForETM E' d t) = Inr ()))"
proof -
  have "ids_ok (props t)"
    using later_ids_ok [OF assms(2) init_ids_ok [OF assms(1)]] .
  then obtain key where k: "generateKey (TOKEN_KEY_PREFIX E') (getTokenIds t) = Inr key"
    using ids_ok_key by blast
  show ?thesis
    using load_reaches_store [OF k] save_reaches_store [OF k] k by auto
qed

theorem initialized_session_derives_key_witness:
  "fst (init sample_ext bare_session) = Inr ()
   \<and> (\<exists>key. generateKey (TOKEN_KEY_PREFIX sample_ext)
              (getTokenIds (snd (onReconnect sample_ext (snd (init sample_ext bare_session)))))
            = Inr key
        \<and> calls (snd (loadTokenForETM sample_ext
                   (snd (onReconnect sample_ext (snd (init sample_ext bare_session))))))
            = calls (snd (onReconnect sample_ext (snd (init sample_ext bare_session))))
              @ [KvGet key])"
proof -
  have i: "fst (init sample_ext bare_session) = Inr ()"
    by (simp add: run_defs sample_ext_def bare_session_def)
  have l: "later (snd (init sample_ext bare_session))
             (snd (onReconnect sample_ext (snd (init sample_ext bare_session))))"
    by (rule later_reconnect [OF later_now])
  show ?thesis
    using initialized_session_derives_key [OF pair_fst [OF i] l, of sample_ext] i
    by blast
qed

end
